theory Spec2Isabelle
  imports Main
begin

section \<open>JavaScript library operations used by the components\<close>

text \<open>
  Strings are \<^typ>\<open>string\<close>: the UTF-8 bytes of the (well-formed) source text.
  \<open>String.prototype.trim\<close> removes white space and line terminators from both ends:
  the code points U+0009 to U+000D, U+0020, U+00A0, U+1680, U+2000 to U+200A, U+2028,
  U+2029, U+202F, U+205F, U+3000 and U+FEFF. \<open>whiteSpaces\<close> lists their UTF-8
  encodings; no encoding is a prefix or a suffix of another character's encoding.
\<close>

definition whiteSpaces :: "string list" where
  "whiteSpaces =
     [[CHR 0x09], [CHR 0x0A], [CHR 0x0B], [CHR 0x0C], [CHR 0x0D], [CHR 0x20],
      [CHR 0xC2, CHR 0xA0],
      [CHR 0xE1, CHR 0x9A, CHR 0x80],
      [CHR 0xE2, CHR 0x80, CHR 0x80], [CHR 0xE2, CHR 0x80, CHR 0x81],
      [CHR 0xE2, CHR 0x80, CHR 0x82], [CHR 0xE2, CHR 0x80, CHR 0x83],
      [CHR 0xE2, CHR 0x80, CHR 0x84], [CHR 0xE2, CHR 0x80, CHR 0x85],
      [CHR 0xE2, CHR 0x80, CHR 0x86], [CHR 0xE2, CHR 0x80, CHR 0x87],
      [CHR 0xE2, CHR 0x80, CHR 0x88], [CHR 0xE2, CHR 0x80, CHR 0x89],
      [CHR 0xE2, CHR 0x80, CHR 0x8A],
      [CHR 0xE2, CHR 0x80, CHR 0xA8], [CHR 0xE2, CHR 0x80, CHR 0xA9],
      [CHR 0xE2, CHR 0x80, CHR 0xAF],
      [CHR 0xE2, CHR 0x81, CHR 0x9F],
      [CHR 0xE3, CHR 0x80, CHR 0x80],
      [CHR 0xEF, CHR 0xBB, CHR 0xBF]]"

text \<open>Remove from the front of \<open>s\<close> every leading occurrence of one of the strings \<open>ws\<close>.\<close>

function stripStart :: "string list \<Rightarrow> string \<Rightarrow> string" where
  "stripStart ws s =
     (case find (\<lambda>w. w \<noteq> [] \<and> take (length w) s = w) ws of
        None \<Rightarrow> s
      | Some w \<Rightarrow> stripStart ws (drop (length w) s))"
  by pat_completeness auto
termination
proof (relation "measure (\<lambda>(ws, s). length s)")
  show "wf (measure (\<lambda>(ws, s). length s))" by simp
next
  fix ws :: "string list" and s w :: string
  assume "find (\<lambda>w. w \<noteq> [] \<and> take (length w) s = w) ws = Some w"
  then have w: "w \<noteq> []" and t: "take (length w) s = w"
    by (auto simp add: find_Some_iff)
  have "length (take (length w) s) \<le> length s" by simp
  with t have "length w \<le> length s" by simp
  with w show "((ws, drop (length w) s), (ws, s)) \<in> measure (\<lambda>(ws, s). length s)"
    by (cases w) simp_all
qed

declare stripStart.simps [simp del]

definition trimStart :: "string \<Rightarrow> string" where
  "trimStart s = stripStart whiteSpaces s"

definition trimEnd :: "string \<Rightarrow> string" where
  "trimEnd s = rev (stripStart (map rev whiteSpaces) (rev s))"

definition trim :: "string \<Rightarrow> string" where
  "trim s = trimEnd (trimStart s)"

text \<open>\<open>Array.prototype.findIndex\<close>: the first index whose element satisfies the test, or -1.\<close>

fun findIndex :: "('a \<Rightarrow> bool) \<Rightarrow> 'a list \<Rightarrow> int" where
  "findIndex P [] = - 1"
| "findIndex P (x # xs) =
     (if P x then 0 else (let r = findIndex P xs in if r = - 1 then - 1 else r + 1))"

text \<open>\<open>Number.prototype.toString\<close> on a non-negative integer: its decimal digits.\<close>

definition digit :: "nat \<Rightarrow> char" where
  "digit d = ''0123456789'' ! d"

fun toString :: "nat \<Rightarrow> string" where
  "toString n = (if n < 10 then [digit n] else toString (n div 10) @ [digit (n mod 10)])"

declare toString.simps [simp del]

section \<open>HealthcareChat.tsx: the streaming chat session\<close>

datatype Role = User | Assistant

text \<open>
  \<open>interface Message\<close>. The field \<open>id\<close> is named \<open>msgId\<close> here; \<open>timestamp\<close> is the
  clock reading (milliseconds) the \<open>Date\<close> was made from; the optional \<open>isStreaming\<close> is
  \<open>None\<close> where the source leaves it undefined.
\<close>

record Message =
  msgId :: string
  role :: Role
  content :: string
  timestamp :: nat
  isStreaming :: "bool option"

text \<open>The component state read by the handlers below (\<open>useState\<close> cells).\<close>

record ChatState =
  messages :: "Message list"
  input :: string
  isLoading :: bool

text \<open>
  The locals of one running handler that live across its \<open>await\<close> points:
  \<open>aiMessageId\<close> and \<open>fullResponse\<close>.
\<close>

record Request =
  aiMessageId :: string
  fullResponse :: string

text \<open>
  Calls into \<open>../lib/gemini\<close>, which is not part of the sources at hand: each handler
  returns the calls it issues, with their arguments.
\<close>

datatype GeminiCall =
    StreamAIResponse string "Message list"
  | ValidateMedicineImage string
  | AnalyzeMedicine string string
  | ValidateMedicalImage string
  | AnalyzeMedicalImage string string
  | ValidateMedicalTerm string
  | ExplainMedicalTerm string
  | ValidateMedicationName string

text \<open>The string literals of the component, byte for byte as the source file has them.\<close>

definition cancelledText :: string where
  "cancelledText = [CHR 0xC3, CHR 0xA2, CHR 0xC5, CHR 0x92] @ '' Response cancelled''"

definition sorryText :: string where
  "sorryText =
     [CHR 0xC3, CHR 0xA2, CHR 0xC5, CHR 0xA1, CHR 0xC2, CHR 0xA0, CHR 0xC3, CHR 0xAF, CHR 0xC2, CHR 0xB8]
     @ '' Sorry, I encountered an error. Please try again.''"

text \<open>
  \<open>handleSubmit\<close> up to its first \<open>await\<close> (lines 297-330). The four clock arguments are
  the readings of \<open>Date.now()\<close>, \<open>new Date()\<close>, \<open>Date.now()\<close> and \<open>new Date()\<close> in the order
  the handler takes them. The history passed to the streaming call is the \<open>messages\<close> of
  the render the handler was created in, hence of the state the handler starts from.
  The result is the new state and, when a request was started, its locals and the call.
\<close>

definition handleSubmit_start ::
  "nat \<Rightarrow> nat \<Rightarrow> nat \<Rightarrow> nat \<Rightarrow> ChatState \<Rightarrow> ChatState \<times> (Request \<times> GeminiCall) option" where
  "handleSubmit_start now1 now2 now3 now4 s =
     (if trim (input s) = [] \<or> isLoading s then (s, None)
      else
        let userMessage = \<lparr>msgId = toString now1, role = User, content = trim (input s),
                             timestamp = now2, isStreaming = None\<rparr>;
            s1 = s\<lparr>messages := messages s @ [userMessage]\<rparr>;
            s2 = s1\<lparr>input := []\<rparr>;
            s3 = s2\<lparr>isLoading := True\<rparr>;
            aiId = toString (now3 + 1);
            aiMessage = \<lparr>msgId = aiId, role = Assistant, content = [],
                           timestamp = now4, isStreaming = Some True\<rparr>;
            s4 = s3\<lparr>messages := messages s3 @ [aiMessage]\<rparr>
        in (s4, Some (\<lparr>aiMessageId = aiId, fullResponse = []\<rparr>,
                      StreamAIResponse (content userMessage) (messages s))))"

text \<open>
  One turn of the \<open>for await\<close> loop (lines 330-341; lines 256-266 of
  \<open>handleSaveEditedMessage\<close> are the same statements): a chunk arrives.
\<close>

definition handleSubmit_chunk :: "string \<Rightarrow> Request \<times> ChatState \<Rightarrow> Request \<times> ChatState" where
  "handleSubmit_chunk chunk rs =
     (let r = (fst rs)\<lparr>fullResponse := fullResponse (fst rs) @ chunk\<rparr>
      in (r, (snd rs)\<lparr>messages :=
                map (\<lambda>msg. if msgId msg = aiMessageId r
                            then msg\<lparr>content := fullResponse r, isStreaming := Some True\<rparr>
                            else msg) (messages (snd rs))\<rparr>))"

text \<open>The loop over the chunks delivered so far, in arrival order.\<close>

fun handleSubmit_chunks :: "string list \<Rightarrow> Request \<times> ChatState \<Rightarrow> Request \<times> ChatState" where
  "handleSubmit_chunks [] rs = rs"
| "handleSubmit_chunks (c # cs) rs = handleSubmit_chunks cs (handleSubmit_chunk c rs)"

text \<open>The stream ends normally: lines 343-350, then \<open>finally\<close> (line 366).\<close>

definition handleSubmit_end :: "Request \<times> ChatState \<Rightarrow> ChatState" where
  "handleSubmit_end rs =
     (let s1 = (snd rs)\<lparr>messages :=
                  map (\<lambda>msg. if msgId msg = aiMessageId (fst rs)
                              then msg\<lparr>isStreaming := Some False\<rparr>
                              else msg) (messages (snd rs))\<rparr>
      in s1\<lparr>isLoading := False\<rparr>)"

text \<open>
  The streaming call rejects: the \<open>catch\<close> block (lines 351-364), then \<open>finally\<close>. The
  clock arguments are the readings of \<open>Date.now()\<close> and \<open>new Date()\<close> in the block.
\<close>

definition handleSubmit_catch :: "nat \<Rightarrow> nat \<Rightarrow> Request \<times> ChatState \<Rightarrow> ChatState" where
  "handleSubmit_catch now1 now2 rs =
     (let s1 = (snd rs)\<lparr>messages :=
                  filter (\<lambda>msg. msgId msg \<noteq> aiMessageId (fst rs)) (messages (snd rs))\<rparr>;
          errorMessage = \<lparr>msgId = toString now1, role = Assistant, content = sorryText,
                            timestamp = now2, isStreaming = None\<rparr>;
          s2 = s1\<lparr>messages := messages s1 @ [errorMessage]\<rparr>
      in s2\<lparr>isLoading := False\<rparr>)"

text \<open>
  \<open>handleCancel\<close> (lines 371-383). \<open>cancelCurrentRequest\<close> acts on the transport only;
  the component state changes as written here.
\<close>

definition handleCancel :: "ChatState \<Rightarrow> ChatState" where
  "handleCancel s =
     (let s1 = s\<lparr>isLoading := False\<rparr>
      in s1\<lparr>messages :=
              map (\<lambda>msg. if isStreaming msg = Some True
                          then msg\<lparr>content := (if content msg = [] then cancelledText else content msg),
                                    isStreaming := Some False\<rparr>
                          else msg) (messages s1)\<rparr>)"

text \<open>
  \<open>handleSaveEditedMessage\<close> up to its first \<open>await\<close> (lines 218-256). The clock
  arguments are the readings of \<open>new Date()\<close> in the updater, \<open>Date.now()\<close> and
  \<open>new Date()\<close>. The \<open>messages\<close> read at line 252 is the value the callback closed
  over (\<open>useCallback\<close> with dependency \<open>messages\<close>): the transcript of the state the
  handler starts from, before its own updaters ran.
\<close>

definition handleSaveEditedMessage_start ::
  "nat \<Rightarrow> nat \<Rightarrow> nat \<Rightarrow> string \<Rightarrow> string \<Rightarrow> ChatState
     \<Rightarrow> ChatState \<times> Request \<times> GeminiCall" where
  "handleSaveEditedMessage_start now1 now2 now3 messageId newContent s =
     (let prev = messages s;
          messageIndex = findIndex (\<lambda>msg. msgId msg = messageId) prev;
          s1 = (if messageIndex = - 1 then s
                else let updatedMessages = take (nat (messageIndex + 1)) prev
                     in s\<lparr>messages := updatedMessages[nat messageIndex :=
                            (updatedMessages ! nat messageIndex)\<lparr>content := newContent,
                                                                 timestamp := now1\<rparr>]\<rparr>);
          s2 = s1\<lparr>isLoading := True\<rparr>;
          aiId = toString now2;
          aiMessage = \<lparr>msgId = aiId, role = Assistant, content = [],
                         timestamp = now3, isStreaming = Some True\<rparr>;
          s3 = s2\<lparr>messages := messages s2 @ [aiMessage]\<rparr>;
          conversationHistory = filter (\<lambda>msg. msgId msg \<noteq> messageId) (messages s)
      in (s3, \<lparr>aiMessageId = aiId, fullResponse = []\<rparr>,
          StreamAIResponse newContent conversationHistory))"

text \<open>
  A submission attempt: the text in the input box and the clock readings of the handler.
  An attempt is a user event of its own: \<open>setInput\<close> puts the text into the state,
  the component renders, and \<open>handleSubmit\<close> of that render fires, so that the handler
  reads the state the events before it have left.
\<close>

type_synonym Attempt = "string \<times> nat \<times> nat \<times> nat \<times> nat"

fun submitAttempt :: "Attempt \<Rightarrow> ChatState \<Rightarrow> ChatState \<times> (Request \<times> GeminiCall) option" where
  "submitAttempt (txt, now1, now2, now3, now4) s =
     handleSubmit_start now1 now2 now3 now4 (s\<lparr>input := txt\<rparr>)"

text \<open>
  What can happen while the handler of one request waits in its loop, with neither a
  cancel nor the end of any stream in between: a chunk of the request arrives, or the
  user attempts a submission. \<open>inFlight\<close> runs such events in order on the locals of the
  waiting handler and the state, and collects the requests the attempts have started.
  The events are separate tasks of the event loop, and the component has rendered
  between any two of them: each handler closes over the state the event before it has
  left. Two submits dispatched within one task, before a render, would both read the
  same \<open>isLoading\<close>; such runs are not among the ones \<open>inFlight\<close> describes.
\<close>

datatype FlightEvent = ChunkArrives string | SubmitAttempted Attempt

fun inFlight ::
  "FlightEvent list \<Rightarrow> Request \<times> ChatState \<Rightarrow> (Request \<times> ChatState) \<times> (Request \<times> GeminiCall) list" where
  "inFlight [] (r, s) = ((r, s), [])"
| "inFlight (ChunkArrives c # evs) (r, s) = inFlight evs (handleSubmit_chunk c (r, s))"
| "inFlight (SubmitAttempted a # evs) (r, s) =
     (let (s1, started) = submitAttempt a s; (rs2, more) = inFlight evs (r, s1)
      in (rs2, (case started of None \<Rightarrow> [] | Some x \<Rightarrow> [x]) @ more))"

text \<open>The chunks among the events, in arrival order.\<close>

fun chunksOf :: "FlightEvent list \<Rightarrow> string list" where
  "chunksOf [] = []"
| "chunksOf (ChunkArrives c # evs) = c # chunksOf evs"
| "chunksOf (SubmitAttempted a # evs) = chunksOf evs"

section \<open>The analyzer components: validate, then analyze\<close>

text \<open>
  A value thrown by an awaited call: an \<open>Error\<close> with its message, or anything else.
  A call into \<open>../lib/gemini\<close> is a parameter of the handler that awaits it, returning
  \<open>Inl\<close> when the promise rejects. Each handler returns, with the new state, the
  effects it had outside the component state, in order.
\<close>

datatype Thrown = JsError string | NonError

datatype Effect = Call GeminiCall | ConsoleError string

record ValidationResult =
  isValid :: bool
  message :: string

text \<open>An uploaded \<open>File\<close>: its MIME type (\<open>file.type\<close>) and its bytes.\<close>

record File =
  mimeType :: string
  fileBytes :: string

text \<open>
  The state of \<open>MedicineAnalyzer\<close> and of \<open>MedicalImageAnalyzer\<close> (the same cells in
  both; \<open>'a\<close> is the analysis record). \<open>image\<close> is named \<open>image_f\<close> here, and
  \<open>imagePreview\<close>, which only the markup reads, is left out.
\<close>

record 'a AnalyzerState =
  image_f :: "File option"
  additionalInfo :: string
  loading :: bool
  validating :: bool
  analysis :: "'a option"
  error :: string
  validationWarning :: string

definition startsWith :: "string \<Rightarrow> string \<Rightarrow> bool" where
  "startsWith s p = (take (length p) s = p)"

subsection \<open>MedicineAnalyzer.tsx\<close>

text \<open>\<open>validateUploadedImage\<close> (lines 58-75).\<close>

definition validateUploadedImage_Medicine ::
  "(File \<Rightarrow> Thrown + string) \<Rightarrow> (string \<Rightarrow> Thrown + ValidationResult) \<Rightarrow> File
     \<Rightarrow> 'a AnalyzerState \<Rightarrow> 'a AnalyzerState \<times> Effect list" where
  "validateUploadedImage_Medicine convertImageToBase64 validateMedicineImage file s =
     (let s1 = s\<lparr>validating := True\<rparr> in
      case convertImageToBase64 file of
        Inl err \<Rightarrow> (s1\<lparr>validating := False\<rparr>, [ConsoleError ''Validation error:''])
      | Inr base64Image \<Rightarrow>
          (case validateMedicineImage base64Image of
             Inl err \<Rightarrow> (s1\<lparr>validating := False\<rparr>,
                         [Call (ValidateMedicineImage base64Image), ConsoleError ''Validation error:''])
           | Inr validation \<Rightarrow>
               if \<not> isValid validation
               then (s1\<lparr>validationWarning := message validation, validating := False\<rparr>,
                     [Call (ValidateMedicineImage base64Image)])
               else (s1\<lparr>validationWarning := [], validating := False\<rparr>,
                     [Call (ValidateMedicineImage base64Image)])))"

text \<open>
  \<open>handleImageUpload\<close> (lines 36-56), with the validation it starts run to its end. The
  argument is \<open>e.target.files?.[0]\<close>.
\<close>

definition handleImageUpload_Medicine ::
  "(File \<Rightarrow> Thrown + string) \<Rightarrow> (string \<Rightarrow> Thrown + ValidationResult) \<Rightarrow> File option
     \<Rightarrow> 'a AnalyzerState \<Rightarrow> 'a AnalyzerState \<times> Effect list" where
  "handleImageUpload_Medicine convertImageToBase64 validateMedicineImage file s =
     (case file of
        None \<Rightarrow> (s, [])
      | Some f \<Rightarrow>
          if startsWith (mimeType f) ''image/''
          then validateUploadedImage_Medicine convertImageToBase64 validateMedicineImage f
                 (s\<lparr>image_f := Some f, error := [], validationWarning := [], analysis := None\<rparr>)
          else (s\<lparr>error := ''Please upload a valid image file''\<rparr>, []))"

definition medicineHint :: string where
  "medicineHint = [CHR 0x0A, CHR 0x0A] @
     ''Please upload a clear image of medicine packaging, tablets, capsules, or medicine bottles.''"

text \<open>\<open>handleAnalyze\<close> (lines 89-124).\<close>

definition handleAnalyze_Medicine ::
  "(File \<Rightarrow> Thrown + string) \<Rightarrow> (string \<Rightarrow> Thrown + ValidationResult)
     \<Rightarrow> (string \<Rightarrow> string \<Rightarrow> Thrown + 'a)
     \<Rightarrow> 'a AnalyzerState \<Rightarrow> 'a AnalyzerState \<times> Effect list" where
  "handleAnalyze_Medicine convertImageToBase64 validateMedicineImage analyzeMedicine s =
     (case image_f s of
        None \<Rightarrow> (s\<lparr>error := ''Please upload an image of the medicine''\<rparr>, [])
      | Some img \<Rightarrow>
          if validationWarning s \<noteq> []
          then (s\<lparr>error := ''Cannot analyze non-medicine images. Please upload a valid medicine image (tablets, capsules, bottles, packaging, etc.).''\<rparr>, [])
          else
            let s1 = s\<lparr>loading := True, error := []\<rparr>;
                failed = s1\<lparr>error := ''Failed to analyze medicine. Please try again.'',
                            loading := False\<rparr>
            in (case convertImageToBase64 img of
                 Inl err \<Rightarrow> (failed, [ConsoleError []])
               | Inr base64Image \<Rightarrow>
                   (case validateMedicineImage base64Image of
                      Inl err \<Rightarrow> (failed, [Call (ValidateMedicineImage base64Image), ConsoleError []])
                    | Inr validation \<Rightarrow>
                        if \<not> isValid validation
                        then (s1\<lparr>error := message validation @ medicineHint, loading := False\<rparr>,
                              [Call (ValidateMedicineImage base64Image)])
                        else
                          (case analyzeMedicine base64Image (trim (additionalInfo s)) of
                             Inl err \<Rightarrow>
                               (failed, [Call (ValidateMedicineImage base64Image),
                                         Call (AnalyzeMedicine base64Image (trim (additionalInfo s))),
                                         ConsoleError []])
                           | Inr result \<Rightarrow>
                               (s1\<lparr>analysis := Some result, loading := False\<rparr>,
                                [Call (ValidateMedicineImage base64Image),
                                 Call (AnalyzeMedicine base64Image (trim (additionalInfo s)))])))))"

subsection \<open>MedicalImageAnalyzer.tsx\<close>

text \<open>\<open>validateUploadedImage\<close> (lines 63-80).\<close>

definition validateUploadedImage_MedicalImage ::
  "(File \<Rightarrow> Thrown + string) \<Rightarrow> (string \<Rightarrow> Thrown + ValidationResult) \<Rightarrow> File
     \<Rightarrow> 'a AnalyzerState \<Rightarrow> 'a AnalyzerState \<times> Effect list" where
  "validateUploadedImage_MedicalImage convertImageToBase64 validateMedicalImage file s =
     (let s1 = s\<lparr>validating := True\<rparr> in
      case convertImageToBase64 file of
        Inl err \<Rightarrow> (s1\<lparr>validating := False\<rparr>, [ConsoleError ''Validation error:''])
      | Inr base64Image \<Rightarrow>
          (case validateMedicalImage base64Image of
             Inl err \<Rightarrow> (s1\<lparr>validating := False\<rparr>,
                         [Call (ValidateMedicalImage base64Image), ConsoleError ''Validation error:''])
           | Inr validation \<Rightarrow>
               if \<not> isValid validation
               then (s1\<lparr>validationWarning := message validation, validating := False\<rparr>,
                     [Call (ValidateMedicalImage base64Image)])
               else (s1\<lparr>validationWarning := [], validating := False\<rparr>,
                     [Call (ValidateMedicalImage base64Image)])))"

text \<open>\<open>handleImageUpload\<close> (lines 42-61); this one leaves \<open>analysis\<close> as it is.\<close>

definition handleImageUpload_MedicalImage ::
  "(File \<Rightarrow> Thrown + string) \<Rightarrow> (string \<Rightarrow> Thrown + ValidationResult) \<Rightarrow> File option
     \<Rightarrow> 'a AnalyzerState \<Rightarrow> 'a AnalyzerState \<times> Effect list" where
  "handleImageUpload_MedicalImage convertImageToBase64 validateMedicalImage file s =
     (case file of
        None \<Rightarrow> (s, [])
      | Some f \<Rightarrow>
          if startsWith (mimeType f) ''image/''
          then validateUploadedImage_MedicalImage convertImageToBase64 validateMedicalImage f
                 (s\<lparr>image_f := Some f, error := [], validationWarning := []\<rparr>)
          else (s\<lparr>error := ''Please upload a valid image file''\<rparr>, []))"

definition medicalImageHint :: string where
  "medicalImageHint = [CHR 0x0A, CHR 0x0A] @
     ''Please upload a valid medical image such as X-rays, CT scans, MRI, ultrasound, or ECG images.''"

text \<open>\<open>handleAnalyze\<close> (lines 94-129).\<close>

definition handleAnalyze_MedicalImage ::
  "(File \<Rightarrow> Thrown + string) \<Rightarrow> (string \<Rightarrow> Thrown + ValidationResult)
     \<Rightarrow> (string \<Rightarrow> string \<Rightarrow> Thrown + 'a)
     \<Rightarrow> 'a AnalyzerState \<Rightarrow> 'a AnalyzerState \<times> Effect list" where
  "handleAnalyze_MedicalImage convertImageToBase64 validateMedicalImage analyzeMedicalImage s =
     (case image_f s of
        None \<Rightarrow> (s\<lparr>error := ''Please upload a medical image''\<rparr>, [])
      | Some img \<Rightarrow>
          if validationWarning s \<noteq> []
          then (s\<lparr>error := ''Cannot analyze non-medical images. Please upload a valid medical image (X-ray, CT scan, MRI, ultrasound, ECG, etc.).''\<rparr>, [])
          else
            let s1 = s\<lparr>loading := True, error := []\<rparr>;
                failed = s1\<lparr>error := ''Failed to analyze medical image. Please try again.'',
                            loading := False\<rparr>
            in (case convertImageToBase64 img of
                 Inl err \<Rightarrow> (failed, [ConsoleError []])
               | Inr base64Image \<Rightarrow>
                   (case validateMedicalImage base64Image of
                      Inl err \<Rightarrow> (failed, [Call (ValidateMedicalImage base64Image), ConsoleError []])
                    | Inr validation \<Rightarrow>
                        if \<not> isValid validation
                        then (s1\<lparr>error := message validation @ medicalImageHint, loading := False\<rparr>,
                              [Call (ValidateMedicalImage base64Image)])
                        else
                          (case analyzeMedicalImage base64Image (trim (additionalInfo s)) of
                             Inl err \<Rightarrow>
                               (failed, [Call (ValidateMedicalImage base64Image),
                                         Call (AnalyzeMedicalImage base64Image (trim (additionalInfo s))),
                                         ConsoleError []])
                           | Inr result \<Rightarrow>
                               (s1\<lparr>analysis := Some result, loading := False\<rparr>,
                                [Call (ValidateMedicalImage base64Image),
                                 Call (AnalyzeMedicalImage base64Image (trim (additionalInfo s)))])))))"

subsection \<open>MedicalTermExplainer (unnamed/part_000)\<close>

text \<open>The cells \<open>term\<close>, \<open>explanation\<close>, \<open>loading\<close> and \<open>error\<close>, suffixed \<open>_t\<close>.\<close>

record TermState =
  term_t :: string
  explanation_t :: string
  loading_t :: bool
  error_t :: string

definition warningSign :: string where
  "warningSign = [CHR 0xE2, CHR 0x9A, CHR 0xA0, CHR 0xEF, CHR 0xB8, CHR 0x8F]"

text \<open>\<open>handleExplain\<close> (lines 12-39).\<close>

definition handleExplain ::
  "(string \<Rightarrow> Thrown + bool) \<Rightarrow> (string \<Rightarrow> Thrown + string) \<Rightarrow> TermState
     \<Rightarrow> TermState \<times> Effect list" where
  "handleExplain validateMedicalTerm explainMedicalTerm s =
     (if trim (term_t s) = []
      then (s\<lparr>error_t := ''Please enter a medical term to explain.''\<rparr>, [])
      else
        let s1 = s\<lparr>loading_t := True, error_t := []\<rparr>;
            caught = (\<lambda>err. s1\<lparr>error_t := (case err of JsError m \<Rightarrow> m
                                   | NonError \<Rightarrow> ''Error explaining term. Please try again.''),
                                 explanation_t := [], loading_t := False\<rparr>)
        in case validateMedicalTerm (term_t s) of
             Inl err \<Rightarrow> (caught err, [Call (ValidateMedicalTerm (term_t s))])
           | Inr isValidMedicalTerm \<Rightarrow>
               if \<not> isValidMedicalTerm
               then (s1\<lparr>error_t := warningSign @ '' The input you provided is not recognized as a valid medical term. Please enter a valid term or code.'',
                         explanation_t := [], loading_t := False\<rparr>,
                     [Call (ValidateMedicalTerm (term_t s))])
               else
                 (case explainMedicalTerm (term_t s) of
                    Inl err \<Rightarrow> (caught err, [Call (ValidateMedicalTerm (term_t s)),
                                             Call (ExplainMedicalTerm (term_t s))])
                  | Inr result \<Rightarrow>
                      (s1\<lparr>explanation_t := result, loading_t := False\<rparr>,
                       [Call (ValidateMedicalTerm (term_t s)),
                        Call (ExplainMedicalTerm (term_t s))])))"

subsection \<open>DrugInteraction.tsx\<close>

text \<open>
  The cells \<open>addDrug\<close> reads or writes: \<open>drugs\<close>, \<open>currentDrug\<close>, \<open>error\<close> and
  \<open>validating\<close> (the last two suffixed \<open>_d\<close>).
\<close>

record DrugState =
  drugs :: "string list"
  currentDrug :: string
  error_d :: string
  validating_d :: bool

text \<open>\<open>addDrug\<close> (lines 14-46). \<open>drugs.includes\<close> compares strings exactly.\<close>

definition addDrug :: "(string \<Rightarrow> Thrown + bool) \<Rightarrow> DrugState \<Rightarrow> DrugState \<times> Effect list" where
  "addDrug validateMedicationName s =
     (let drugName = trim (currentDrug s) in
      if drugName = [] then (s, [])
      else if drugName \<in> set (drugs s)
      then (s\<lparr>error_d := ''This medication has already been added.''\<rparr>, [])
      else
        let s1 = s\<lparr>validating_d := True, error_d := []\<rparr>
        in case validateMedicationName drugName of
             Inl err \<Rightarrow>
               (s1\<lparr>error_d := ''Error validating medication name. Please try again.'',
                    validating_d := False\<rparr>,
                [Call (ValidateMedicationName drugName)])
           | Inr valid \<Rightarrow>
               if \<not> valid
               then (s1\<lparr>error_d := warningSign @ '' Invalid input. Please enter a valid medication name.'',
                         validating_d := False\<rparr>,
                     [Call (ValidateMedicationName drugName)])
               else (s1\<lparr>drugs := drugs s @ [drugName], currentDrug := [], error_d := [],
                         validating_d := False\<rparr>,
                     [Call (ValidateMedicationName drugName)]))"

section \<open>Concrete sessions\<close>

text \<open>Small concrete states and inputs, used to instantiate the properties below.\<close>

definition nbsp :: string where
  "nbsp = [CHR 0xC2, CHR 0xA0]"

text \<open>Texts as typed, with white space around them.\<close>

definition typedHi :: string where
  "typedHi = ''  hi'' @ nbsp"

definition typedBlank :: string where
  "typedBlank = nbsp @ '' ''"

definition typedRetry :: string where
  "typedRetry = nbsp @ ''retry ''"

definition typedAdult :: string where
  "typedAdult = '' adult'' @ nbsp"

definition typedAspirin :: string where
  "typedAspirin = '' Aspirin'' @ nbsp"

definition typedLowerAspirin :: string where
  "typedLowerAspirin = nbsp @ ''aspirin ''"

definition demoIdle :: ChatState where
  "demoIdle = \<lparr>messages = [], input = typedHi, isLoading = False\<rparr>"

definition demoEvents :: "FlightEvent list" where
  "demoEvents =
     [SubmitAttempted (''again'', 2000, 2000, 2000, 2000), ChunkArrives ''Hel'',
      SubmitAttempted (typedBlank, 2500, 2500, 2500, 2500), ChunkArrives ''lo'',
      SubmitAttempted (''third'', 3000, 3000, 3000, 3000)]"

definition demoRequest :: Request where
  "demoRequest = \<lparr>aiMessageId = toString 1001, fullResponse = []\<rparr>"

definition demoSending :: ChatState where
  "demoSending = fst (handleSubmit_start 1000 1000 1000 1000 demoIdle)"

definition demoStreaming :: "Request \<times> ChatState" where
  "demoStreaming = handleSubmit_chunk ''Hel'' (demoRequest, demoSending)"

text \<open>
  After the chunk ``Hel'': cancel, a second submission, and then the normal end of the
  first, cancelled stream, reaching the handler of the first request only now.
\<close>

definition demoCancelled :: ChatState where
  "demoCancelled = handleCancel (snd demoStreaming)"

definition demoResubmitted :: "ChatState \<times> (Request \<times> GeminiCall) option" where
  "demoResubmitted = handleSubmit_start 2000 2000 2000 2000 (demoCancelled\<lparr>input := ''again''\<rparr>)"

definition demoStaleEnd :: ChatState where
  "demoStaleEnd = handleSubmit_end (fst demoStreaming, fst demoResubmitted)"

definition demoMsg :: "string \<Rightarrow> Role \<Rightarrow> string \<Rightarrow> Message" where
  "demoMsg i r c = \<lparr>msgId = i, role = r, content = c, timestamp = 0, isStreaming = None\<rparr>"

definition demoTranscript :: "Message list" where
  "demoTranscript =
     [demoMsg ''1'' User ''u1'', demoMsg ''2'' Assistant ''a1'', demoMsg ''3'' User ''u2'',
      demoMsg ''4'' Assistant ''a2'', demoMsg ''5'' User ''u3'']"

definition demoFile :: File where
  "demoFile = \<lparr>mimeType = ''image/png'', fileBytes = ''PNG''\<rparr>"

definition demoAnalyzer :: "string AnalyzerState" where
  "demoAnalyzer = \<lparr>image_f = Some demoFile, additionalInfo = '' adult '', loading = False,
     validating = False, analysis = None, error = [], validationWarning = []\<rparr>"

definition demoEmptyAnalyzer :: "string AnalyzerState" where
  "demoEmptyAnalyzer = \<lparr>image_f = None, additionalInfo = typedAdult, loading = False,
     validating = False, analysis = None, error = [], validationWarning = []\<rparr>"

definition demoTerm :: TermState where
  "demoTerm = \<lparr>term_t = ''MRI'', explanation_t = [], loading_t = False, error_t = []\<rparr>"

definition demoDrugs :: DrugState where
  "demoDrugs = \<lparr>drugs = [], currentDrug = [], error_d = [], validating_d = False\<rparr>"

section \<open>Properties of the chat session\<close>

subsection \<open>Evaluating the concrete session\<close>

lemma trim_hi: "trim typedHi = ''hi''"
  by code_simp

lemma trim_again: "trim ''again'' = ''again''"
  by code_simp

lemma trim_third: "trim ''third'' = ''third''"
  by code_simp

lemma trim_retry: "trim typedRetry = ''retry''"
  by code_simp

lemma trim_MRI: "trim ''MRI'' = ''MRI''"
  by code_simp

lemma trim_adult: "trim typedAdult = ''adult''"
  by code_simp

lemma trim_Aspirin: "trim ''Aspirin'' = ''Aspirin''"
  by code_simp

lemma trim_Aspirin_spaced: "trim typedAspirin = ''Aspirin''"
  by code_simp

lemma trim_blank: "trim typedBlank = []"
  by code_simp

lemma trim_aspirin_spaced: "trim typedLowerAspirin = ''aspirin''"
  by code_simp

lemma toString_1000: "toString 1000 = ''1000''"
  by (simp add: toString.simps digit_def)

lemma toString_1001: "toString 1001 = ''1001''"
  by (simp add: toString.simps digit_def)

lemma demo_start:
  "handleSubmit_start 1000 1000 1000 1000 demoIdle =
     (\<lparr>messages = [\<lparr>msgId = toString 1000, role = User, content = ''hi'', timestamp = 1000,
                      isStreaming = None\<rparr>,
                    \<lparr>msgId = toString 1001, role = Assistant, content = [], timestamp = 1000,
                      isStreaming = Some True\<rparr>],
        input = [], isLoading = True\<rparr>,
      Some (\<lparr>aiMessageId = toString 1001, fullResponse = []\<rparr>, StreamAIResponse ''hi'' []))"
  by (simp add: handleSubmit_start_def demoIdle_def trim_hi Let_def)

lemma demo_start_sending:
  "handleSubmit_start 1000 1000 1000 1000 demoIdle =
     (demoSending, Some (demoRequest, StreamAIResponse ''hi'' []))"
  by (simp add: demo_start demoSending_def demoRequest_def)

lemma demo_streaming:
  "demoStreaming =
     (\<lparr>aiMessageId = ''1001'', fullResponse = ''Hel''\<rparr>,
      \<lparr>messages = [\<lparr>msgId = ''1000'', role = User, content = ''hi'', timestamp = 1000,
                      isStreaming = None\<rparr>,
                    \<lparr>msgId = ''1001'', role = Assistant, content = ''Hel'', timestamp = 1000,
                      isStreaming = Some True\<rparr>],
        input = [], isLoading = True\<rparr>)"
  by (simp add: demoStreaming_def demoSending_def demoRequest_def demo_start handleSubmit_chunk_def
      Let_def toString_1000 toString_1001)

subsection \<open>What an accepted submission leaves behind\<close>

lemma start_accepted:
  assumes "handleSubmit_start n1 n2 n3 n4 s = (s1, Some (r, call))"
  shows "messages s1 = messages s @
           [\<lparr>msgId = toString n1, role = User, content = trim (input s), timestamp = n2,
              isStreaming = None\<rparr>,
            \<lparr>msgId = aiMessageId r, role = Assistant, content = [], timestamp = n4,
              isStreaming = Some True\<rparr>]"
    and "fullResponse r = []" and "aiMessageId r = toString (n3 + 1)" and "isLoading s1"
    and "call = StreamAIResponse (trim (input s)) (messages s)"
  using assms by (auto simp add: handleSubmit_start_def Let_def split: if_splits)

lemma start_from_idle:
  assumes "\<not> isLoading s" "trim (input s) \<noteq> []"
  shows "\<exists>s1 r call. handleSubmit_start n1 n2 n3 n4 s = (s1, Some (r, call)) \<and> isLoading s1"
  using assms by (simp add: handleSubmit_start_def Let_def)

subsection \<open>Single flight\<close>

lemma submitAttempt_loading:
  "isLoading s \<Longrightarrow> submitAttempt a s = (s\<lparr>input := fst a\<rparr>, None)"
  by (cases a) (simp add: handleSubmit_start_def)

lemma chunk_with_input:
  "handleSubmit_chunk c (r, s\<lparr>input := x\<rparr>) =
     (fst (handleSubmit_chunk c (r, s)), (snd (handleSubmit_chunk c (r, s)))\<lparr>input := x\<rparr>)"
  by (simp add: handleSubmit_chunk_def Let_def)

lemma chunks_with_input:
  "handleSubmit_chunks cs (r, s\<lparr>input := x\<rparr>) =
     (fst (handleSubmit_chunks cs (r, s)), (snd (handleSubmit_chunks cs (r, s)))\<lparr>input := x\<rparr>)"
proof (induction cs arbitrary: r s)
  case Nil
  then show ?case by simp
next
  case (Cons c cs)
  obtain r' s' where step: "handleSubmit_chunk c (r, s) = (r', s')" by fastforce
  show ?case using Cons.IH [of r' s'] chunk_with_input [where c = c and r = r and s = s and x = x] step by simp
qed

lemma chunk_loading:
  "isLoading (snd (handleSubmit_chunk c (r, s))) = isLoading s"
  by (simp add: handleSubmit_chunk_def Let_def)

lemma inFlight_loading:
  assumes "isLoading s"
  shows "snd (inFlight evs (r, s)) = []
       \<and> isLoading (snd (fst (inFlight evs (r, s))))
       \<and> messages (snd (fst (inFlight evs (r, s)))) =
           messages (snd (handleSubmit_chunks (chunksOf evs) (r, s)))"
  using assms
proof (induction evs arbitrary: r s)
  case Nil
  then show ?case by simp
next
  case (Cons ev evs)
  show ?case
  proof (cases ev)
    case (ChunkArrives c)
    obtain r' s' where step: "handleSubmit_chunk c (r, s) = (r', s')" by fastforce
    have l: "isLoading s'" using chunk_loading [of c r s] step Cons.prems by simp
    show ?thesis using Cons.IH [OF l, of r'] step ChunkArrives by simp
  next
    case (SubmitAttempted a)
    have 1: "submitAttempt a s = (s\<lparr>input := fst a\<rparr>, None)"
      using Cons.prems by (rule submitAttempt_loading)
    have 2: "isLoading (s\<lparr>input := fst a\<rparr>)" using Cons.prems by simp
    show ?thesis
      using Cons.IH [OF 2, of r] SubmitAttempted
      by (simp add: 1 split_beta chunks_with_input del: submitAttempt.simps)
  qed
qed

text \<open>
  Claim C1 (single-flight invariant), as the component has it. From an accepted
  submission on, and as long as neither cancel is invoked nor the stream of any handler
  has ended or failed, every further submission attempt, whatever its text (empty after
  trimming or not), is a no-op: over any interleaving of chunk arrivals and attempts no
  request is started, \<open>isLoading\<close> stays set, and the transcript is the one the chunks
  alone produce. The guard is the single flag \<open>isLoading\<close>, which belongs to no
  request: cancel clears it, and so does the end of every handler.
\<close>

theorem single_flight:
  assumes "handleSubmit_start n1 n2 n3 n4 s = (s1, Some (r, call))"
  shows "snd (inFlight evs (r, s1)) = []
       \<and> isLoading (snd (fst (inFlight evs (r, s1))))
       \<and> messages (snd (fst (inFlight evs (r, s1)))) =
           messages (snd (handleSubmit_chunks (chunksOf evs) (r, s1)))"
  by (rule inFlight_loading) (rule start_accepted(4) [OF assms])

theorem single_flight_witness:
  "snd (inFlight demoEvents (demoRequest, demoSending)) = []
   \<and> isLoading (snd (fst (inFlight demoEvents (demoRequest, demoSending))))
   \<and> messages (snd (fst (inFlight demoEvents (demoRequest, demoSending)))) =
       messages (snd (handleSubmit_chunks [''Hel'', ''lo''] (demoRequest, demoSending)))"
  using single_flight [OF demo_start_sending, of demoEvents]
  by (simp add: demoEvents_def)

lemma demo_resubmitted:
  "demoResubmitted =
     (\<lparr>messages = [\<lparr>msgId = ''1000'', role = User, content = ''hi'', timestamp = 1000,
                      isStreaming = None\<rparr>,
                    \<lparr>msgId = ''1001'', role = Assistant, content = ''Hel'', timestamp = 1000,
                      isStreaming = Some False\<rparr>,
                    \<lparr>msgId = toString 2000, role = User, content = ''again'', timestamp = 2000,
                      isStreaming = None\<rparr>,
                    \<lparr>msgId = toString 2001, role = Assistant, content = [], timestamp = 2000,
                      isStreaming = Some True\<rparr>],
        input = [], isLoading = True\<rparr>,
      Some (\<lparr>aiMessageId = toString 2001, fullResponse = []\<rparr>,
            StreamAIResponse ''again''
              [\<lparr>msgId = ''1000'', role = User, content = ''hi'', timestamp = 1000,
                 isStreaming = None\<rparr>,
               \<lparr>msgId = ''1001'', role = Assistant, content = ''Hel'', timestamp = 1000,
                 isStreaming = Some False\<rparr>]))"
  by (simp add: demoResubmitted_def demoCancelled_def demo_streaming handleCancel_def
      handleSubmit_start_def trim_again Let_def)

lemma toString_2000: "toString 2000 = ''2000''"
  by (simp add: toString.simps digit_def)

lemma toString_2001: "toString 2001 = ''2001''"
  by (simp add: toString.simps digit_def)

text \<open>
  In flight does not imply \<open>isLoading\<close>. After ``Hel'', cancel and a second, accepted
  submission, the end of the first stream reaches its handler: the flag is cleared while
  the message of the second request is still streaming, and a third submission is
  accepted, with the second request in flight.
\<close>

theorem single_flight_counterexample:
  "snd demoResubmitted =
     Some (\<lparr>aiMessageId = ''2001'', fullResponse = []\<rparr>,
           StreamAIResponse ''again''
             [\<lparr>msgId = ''1000'', role = User, content = ''hi'', timestamp = 1000,
                isStreaming = None\<rparr>,
              \<lparr>msgId = ''1001'', role = Assistant, content = ''Hel'', timestamp = 1000,
                isStreaming = Some False\<rparr>])
   \<and> isLoading (fst demoResubmitted)
   \<and> \<not> isLoading demoStaleEnd
   \<and> last (messages demoStaleEnd) =
       \<lparr>msgId = ''2001'', role = Assistant, content = [], timestamp = 2000,
         isStreaming = Some True\<rparr>
   \<and> snd (handleSubmit_start 3000 3000 3000 3000 (demoStaleEnd\<lparr>input := ''third''\<rparr>)) =
       Some (\<lparr>aiMessageId = toString 3001, fullResponse = []\<rparr>,
             StreamAIResponse ''third'' (messages demoStaleEnd))"
  by (simp add: demoStaleEnd_def demo_resubmitted demo_streaming handleSubmit_end_def
      handleSubmit_start_def trim_third toString_2000 toString_2001 Let_def)

subsection \<open>Chunks\<close>

lemma chunks_request:
  "fst (handleSubmit_chunks cs (r, s)) = r\<lparr>fullResponse := fullResponse r @ concat cs\<rparr>"
  by (induction cs arbitrary: r s) (simp_all add: handleSubmit_chunk_def Let_def)

lemma chunk_last:
  assumes "messages s \<noteq> []" "msgId (last (messages s)) = aiMessageId r"
  shows "last (messages (snd (handleSubmit_chunk c (r, s)))) =
           (last (messages s))\<lparr>content := fullResponse r @ c, isStreaming := Some True\<rparr>"
  using assms by (simp add: handleSubmit_chunk_def Let_def last_map)

lemma chunk_nonempty:
  "messages (snd (handleSubmit_chunk c (r, s))) = [] \<longleftrightarrow> messages s = []"
  by (simp add: handleSubmit_chunk_def Let_def)

lemma chunks_last:
  assumes "messages s \<noteq> []" "msgId (last (messages s)) = aiMessageId r"
    "content (last (messages s)) = fullResponse r" "isStreaming (last (messages s)) = Some True"
  shows "messages (snd (handleSubmit_chunks cs (r, s))) \<noteq> [] \<and>
         last (messages (snd (handleSubmit_chunks cs (r, s)))) =
           (last (messages s))\<lparr>content := fullResponse r @ concat cs\<rparr>"
  using assms
proof (induction cs arbitrary: r s)
  case Nil
  then show ?case by simp
next
  case (Cons c cs)
  obtain r' s' where step: "handleSubmit_chunk c (r, s) = (r', s')" by fastforce
  have r': "r' = r\<lparr>fullResponse := fullResponse r @ c\<rparr>"
    using step by (simp add: handleSubmit_chunk_def Let_def)
  have ne: "messages s' \<noteq> []" using chunk_nonempty [of c r s] step Cons.prems(1) by simp
  have l: "last (messages s') =
      (last (messages s))\<lparr>content := fullResponse r @ c, isStreaming := Some True\<rparr>"
    using chunk_last [OF Cons.prems(1,2), of c] step by simp
  have "messages (snd (handleSubmit_chunks cs (r', s'))) \<noteq> [] \<and>
        last (messages (snd (handleSubmit_chunks cs (r', s')))) =
           (last (messages s'))\<lparr>content := fullResponse r' @ concat cs\<rparr>"
    by (rule Cons.IH) (use ne l r' Cons.prems in simp_all)
  then show ?case using step l r' Cons.prems(4) by simp
qed

lemma end_last:
  assumes "messages s \<noteq> []" "msgId (last (messages s)) = aiMessageId r"
  shows "last (messages (handleSubmit_end (r, s))) = (last (messages s))\<lparr>isStreaming := Some False\<rparr>"
  using assms by (simp add: handleSubmit_end_def Let_def last_map)

text \<open>
  Claim C5 (streaming accumulation). After an accepted submission, once the first \<open>k\<close>
  chunks of any chunk sequence have arrived, the assistant message of the request (the
  last message of the transcript) has as content the concatenation of those chunks in
  arrival order and \<open>isStreaming\<close> true; when the sequence has ended normally its content
  is the concatenation of all chunks and \<open>isStreaming\<close> is false.
\<close>

theorem streaming_accumulation:
  assumes "handleSubmit_start n1 n2 n3 n4 s = (s1, Some (r, call))"
  shows "last (messages (snd (handleSubmit_chunks (take k cs) (r, s1)))) =
           \<lparr>msgId = aiMessageId r, role = Assistant, content = concat (take k cs),
             timestamp = n4, isStreaming = Some True\<rparr>
         \<and> last (messages (handleSubmit_end (handleSubmit_chunks cs (r, s1)))) =
           \<lparr>msgId = aiMessageId r, role = Assistant, content = concat cs,
             timestamp = n4, isStreaming = Some False\<rparr>"
proof -
  note st = start_accepted [OF assms]
  have pre: "messages s1 \<noteq> []" "msgId (last (messages s1)) = aiMessageId r"
    "content (last (messages s1)) = fullResponse r" "isStreaming (last (messages s1)) = Some True"
    by (simp_all add: st)
  have l: "last (messages s1) = \<lparr>msgId = aiMessageId r, role = Assistant, content = [],
             timestamp = n4, isStreaming = Some True\<rparr>"
    by (simp add: st)
  have A: "\<And>ds. messages (snd (handleSubmit_chunks ds (r, s1))) \<noteq> [] \<and>
      last (messages (snd (handleSubmit_chunks ds (r, s1)))) =
        \<lparr>msgId = aiMessageId r, role = Assistant, content = concat ds,
          timestamp = n4, isStreaming = Some True\<rparr>"
    using chunks_last [OF pre] by (simp add: l st(2))
  obtain r' s' where fin: "handleSubmit_chunks cs (r, s1) = (r', s')" by fastforce
  have r': "aiMessageId r' = aiMessageId r" using chunks_request [of cs r s1] fin by simp
  have "last (messages (handleSubmit_end (r', s'))) = (last (messages s'))\<lparr>isStreaming := Some False\<rparr>"
    by (rule end_last) (use A [of cs] fin r' in simp_all)
  then show ?thesis using A [of "take k cs"] A [of cs] fin by simp
qed

theorem streaming_accumulation_witness:
  "last (messages (snd (handleSubmit_chunks (take 1 [''Hel'', ''lo, '', ''world''])
      (demoRequest, demoSending)))) =
     \<lparr>msgId = toString 1001, role = Assistant, content = ''Hel'', timestamp = 1000,
       isStreaming = Some True\<rparr>
   \<and> last (messages (snd (handleSubmit_chunks (take 2 [''Hel'', ''lo, '', ''world''])
      (demoRequest, demoSending)))) =
     \<lparr>msgId = toString 1001, role = Assistant, content = ''Hello, '', timestamp = 1000,
       isStreaming = Some True\<rparr>
   \<and> last (messages (snd (handleSubmit_chunks (take 3 [''Hel'', ''lo, '', ''world''])
      (demoRequest, demoSending)))) =
     \<lparr>msgId = toString 1001, role = Assistant, content = ''Hello, world'', timestamp = 1000,
       isStreaming = Some True\<rparr>
   \<and> last (messages (handleSubmit_end (handleSubmit_chunks [''Hel'', ''lo, '', ''world'']
      (demoRequest, demoSending)))) =
     \<lparr>msgId = toString 1001, role = Assistant, content = ''Hello, world'', timestamp = 1000,
       isStreaming = Some False\<rparr>"
  using streaming_accumulation [OF demo_start_sending, of 1 "[''Hel'', ''lo, '', ''world'']"]
    streaming_accumulation [OF demo_start_sending, of 2 "[''Hel'', ''lo, '', ''world'']"]
    streaming_accumulation [OF demo_start_sending, of 3 "[''Hel'', ''lo, '', ''world'']"]
  by (simp add: demoRequest_def)

subsection \<open>The streaming call rejects\<close>

lemma chunk_filter:
  "filter (\<lambda>m. msgId m \<noteq> aiMessageId r) (messages (snd (handleSubmit_chunk c (r, s)))) =
   filter (\<lambda>m. msgId m \<noteq> aiMessageId r) (messages s)"
proof -
  have "filter (\<lambda>m. msgId m \<noteq> i) (map (\<lambda>msg. if msgId msg = i then f msg else msg) ms) =
        filter (\<lambda>m. msgId m \<noteq> i) ms" if "\<And>m. msgId (f m) = msgId m" for i f and ms :: "Message list"
    using that by (induction ms) simp_all
  then show ?thesis by (simp add: handleSubmit_chunk_def Let_def)
qed

lemma chunk_request_id:
  "aiMessageId (fst (handleSubmit_chunk c (r, s))) = aiMessageId r"
  by (simp add: handleSubmit_chunk_def Let_def)

lemma chunks_filter:
  "filter (\<lambda>m. msgId m \<noteq> aiMessageId r) (messages (snd (handleSubmit_chunks cs (r, s)))) =
   filter (\<lambda>m. msgId m \<noteq> aiMessageId r) (messages s)"
proof (induction cs arbitrary: r s)
  case Nil
  then show ?case by simp
next
  case (Cons c cs)
  obtain r' s' where step: "handleSubmit_chunk c (r, s) = (r', s')" by fastforce
  have r': "aiMessageId r' = aiMessageId r" using chunk_request_id [of c r s] step by simp
  show ?case using Cons.IH [of r' s'] chunk_filter [of r c s] step r' by simp
qed

text \<open>
  Claim C8 (stream failure replacement). When the streaming call of an accepted
  submission rejects, after any number of chunks (none: still sending), the transcript
  becomes the one before the submission plus the user message, without any message
  carrying the request's assistant id (so the placeholder and its partial content are
  gone), followed by one new assistant message with the failure notice; \<open>isLoading\<close> is
  false, so a following submission with non-empty text is accepted.
\<close>

theorem stream_failure_replacement:
  assumes "handleSubmit_start n1 n2 n3 n4 s = (s1, Some (r, call))"
  shows "messages (handleSubmit_catch e1 e2 (handleSubmit_chunks cs (r, s1))) =
           filter (\<lambda>m. msgId m \<noteq> aiMessageId r)
             (messages s @ [\<lparr>msgId = toString n1, role = User, content = trim (input s),
                              timestamp = n2, isStreaming = None\<rparr>])
           @ [\<lparr>msgId = toString e1, role = Assistant, content = sorryText, timestamp = e2,
                isStreaming = None\<rparr>]
         \<and> \<not> isLoading (handleSubmit_catch e1 e2 (handleSubmit_chunks cs (r, s1)))
         \<and> (trim txt \<noteq> [] \<longrightarrow>
              snd (handleSubmit_start m1 m2 m3 m4
                ((handleSubmit_catch e1 e2 (handleSubmit_chunks cs (r, s1)))\<lparr>input := txt\<rparr>)) \<noteq> None)"
proof -
  note st = start_accepted [OF assms]
  obtain r' s' where fin: "handleSubmit_chunks cs (r, s1) = (r', s')" by fastforce
  have r': "aiMessageId r' = aiMessageId r" using chunks_request [of cs r s1] fin by simp
  have f: "filter (\<lambda>m. msgId m \<noteq> aiMessageId r) (messages s') =
           filter (\<lambda>m. msgId m \<noteq> aiMessageId r) (messages s1)"
    using chunks_filter [of r cs s1] fin by simp
  have m: "messages (handleSubmit_catch e1 e2 (r', s')) =
      filter (\<lambda>m. msgId m \<noteq> aiMessageId r) (messages s1)
      @ [\<lparr>msgId = toString e1, role = Assistant, content = sorryText, timestamp = e2,
           isStreaming = None\<rparr>]"
    by (simp add: handleSubmit_catch_def Let_def r' f)
  have l: "\<not> isLoading (handleSubmit_catch e1 e2 (r', s'))"
    by (simp add: handleSubmit_catch_def Let_def)
  have a: "trim txt \<noteq> [] \<longrightarrow> snd (handleSubmit_start m1 m2 m3 m4
             ((handleSubmit_catch e1 e2 (r', s'))\<lparr>input := txt\<rparr>)) \<noteq> None"
    using l by (simp add: handleSubmit_start_def Let_def)
  show ?thesis using m l a by (simp add: fin st(1))
qed

theorem stream_failure_replacement_witness:
  "messages (handleSubmit_catch 1500 1501 (handleSubmit_chunks [''Hel'', ''lo''] (demoRequest, demoSending))) =
     [\<lparr>msgId = ''1000'', role = User, content = ''hi'', timestamp = 1000, isStreaming = None\<rparr>,
      \<lparr>msgId = toString 1500, role = Assistant, content = sorryText, timestamp = 1501,
        isStreaming = None\<rparr>]
   \<and> \<not> isLoading (handleSubmit_catch 1500 1501 (handleSubmit_chunks [''Hel'', ''lo''] (demoRequest, demoSending)))
   \<and> trim typedRetry \<noteq> []
   \<and> snd (handleSubmit_start 1600 1600 1600 1600
        ((handleSubmit_catch 1500 1501 (handleSubmit_chunks [''Hel'', ''lo''] (demoRequest, demoSending)))
           \<lparr>input := typedRetry\<rparr>)) \<noteq> None"
proof -
  have t: "trim typedRetry \<noteq> []" by (simp add: trim_retry)
  show ?thesis
    using t stream_failure_replacement [OF demo_start_sending,
        of 1500 1501 "[''Hel'', ''lo'']" typedRetry 1600 1600 1600 1600]
    by (simp add: demoIdle_def demoRequest_def trim_hi trim_retry toString_1000 toString_1001)
qed

subsection \<open>Cancellation\<close>

text \<open>
  Claim C4 (cancellation finality), as the component has it. After \<open>handleCancel\<close> a
  message that was streaming keeps its content, or carries the cancellation marker when
  that content was empty, and its \<open>isStreaming\<close> is false; \<open>isLoading\<close> is false; and the
  normal end of the stream afterwards leaves that message as cancel left it. The
  component keeps no liveness flag: that no further chunk arrives is left to
  \<open>cancelCurrentRequest\<close>.
\<close>

theorem cancel_finality:
  assumes "i < length (messages s)" "isStreaming (messages s ! i) = Some True"
  shows "messages (handleCancel s) ! i =
           (messages s ! i)\<lparr>content := (if content (messages s ! i) = [] then cancelledText
                                         else content (messages s ! i)),
                            isStreaming := Some False\<rparr>
         \<and> \<not> isLoading (handleCancel s)
         \<and> messages (handleSubmit_end (r, handleCancel s)) ! i = messages (handleCancel s) ! i"
  using assms by (simp add: handleCancel_def handleSubmit_end_def Let_def)

theorem cancel_finality_witness:
  "(1::nat) < length (messages (snd demoStreaming))
   \<and> isStreaming (messages (snd demoStreaming) ! 1) = Some True
   \<and> messages (handleCancel (snd demoStreaming)) ! 1 =
        \<lparr>msgId = ''1001'', role = Assistant, content = ''Hel'', timestamp = 1000,
          isStreaming = Some False\<rparr>
   \<and> \<not> isLoading (handleCancel (snd demoStreaming))
   \<and> messages (handleSubmit_end (fst demoStreaming, handleCancel (snd demoStreaming))) ! 1 =
        \<lparr>msgId = ''1001'', role = Assistant, content = ''Hel'', timestamp = 1000,
          isStreaming = Some False\<rparr>"
proof -
  have a: "(1::nat) < length (messages (snd demoStreaming))" by (simp add: demo_streaming)
  have b: "isStreaming (messages (snd demoStreaming) ! 1) = Some True" by (simp add: demo_streaming)
  show ?thesis
    using a b cancel_finality [OF a b, of "fst demoStreaming"] by (simp add: demo_streaming)
qed

text \<open>
  A chunk of the cancelled request that still arrives is applied: after ``Hel'', cancel
  and a late chunk ``lo'', the message reads ``Hello'' and is streaming again.
\<close>

theorem cancel_finality_counterexample:
  "last (messages (handleCancel (snd demoStreaming))) =
     \<lparr>msgId = ''1001'', role = Assistant, content = ''Hel'', timestamp = 1000,
       isStreaming = Some False\<rparr>
   \<and> last (messages (snd (handleSubmit_chunk ''lo'' (fst demoStreaming, handleCancel (snd demoStreaming))))) =
     \<lparr>msgId = ''1001'', role = Assistant, content = ''Hello'', timestamp = 1000,
       isStreaming = Some True\<rparr>"
  by (simp add: demo_streaming handleCancel_def handleSubmit_chunk_def Let_def)

subsection \<open>Editing a user message\<close>

lemma findIndex_first:
  assumes "\<forall>m \<in> set pre. \<not> P m" "P u"
  shows "findIndex P (pre @ u # post) = int (length pre)"
  using assms by (induction pre) (simp_all add: Let_def)

lemma edit_truncates:
  assumes "\<forall>m \<in> set pre. msgId m \<noteq> msgId u"
  shows "fst (handleSaveEditedMessage_start n1 n2 n3 (msgId u) newContent
              \<lparr>messages = pre @ u # post, input = inp, isLoading = ld\<rparr>) =
         \<lparr>messages = pre @ [u\<lparr>content := newContent, timestamp := n1\<rparr>,
                            \<lparr>msgId = toString n2, role = Assistant, content = [],
                              timestamp = n3, isStreaming = Some True\<rparr>],
           input = inp, isLoading = True\<rparr>"
proof -
  have i: "findIndex (\<lambda>msg. msgId msg = msgId u) (pre @ u # post) = int (length pre)"
    by (rule findIndex_first) (use assms in simp_all)
  have n: "nat (int (length pre) + 1) = Suc (length pre)" by simp
  show ?thesis
    by (simp add: handleSaveEditedMessage_start_def i n Let_def del: of_nat_Suc)
qed

text \<open>
  Claim C2 (edit truncation). For a transcript \<open>[u1, a1, u2, a2, u3]\<close> in which the id
  of \<open>u2\<close> does not occur before it (ids are unique within a session), editing \<open>u2\<close>
  leaves \<open>[u1, a1, u2']\<close>, where \<open>u2'\<close> is \<open>u2\<close> with the new content and a fresh
  timestamp, followed by exactly one new assistant message that is empty and streaming;
  \<open>a2\<close> and \<open>u3\<close> are gone.
\<close>

theorem edit_truncation:
  assumes "msgId u1 \<noteq> msgId u2" "msgId a1 \<noteq> msgId u2"
  shows "fst (handleSaveEditedMessage_start n1 n2 n3 (msgId u2) newContent
              \<lparr>messages = [u1, a1, u2, a2, u3], input = inp, isLoading = False\<rparr>) =
         \<lparr>messages = [u1, a1, u2\<lparr>content := newContent, timestamp := n1\<rparr>,
                        \<lparr>msgId = toString n2, role = Assistant, content = [],
                          timestamp = n3, isStreaming = Some True\<rparr>],
           input = inp, isLoading = True\<rparr>"
  using edit_truncates [of "[u1, a1]" u2 n1 n2 n3 newContent "[a2, u3]" inp False] assms
  by simp

theorem edit_truncation_witness:
  "fst (handleSaveEditedMessage_start 7000 7001 7002 ''3'' ''u2 edited''
              \<lparr>messages = demoTranscript, input = [], isLoading = False\<rparr>) =
         \<lparr>messages = [demoMsg ''1'' User ''u1'', demoMsg ''2'' Assistant ''a1'',
                        \<lparr>msgId = ''3'', role = User, content = ''u2 edited'', timestamp = 7000,
                          isStreaming = None\<rparr>,
                        \<lparr>msgId = toString 7001, role = Assistant, content = [],
                          timestamp = 7002, isStreaming = Some True\<rparr>],
           input = [], isLoading = True\<rparr>"
  using edit_truncation [of "demoMsg ''1'' User ''u1''" "demoMsg ''3'' User ''u2''"
      "demoMsg ''2'' Assistant ''a1''" 7000 7001 7002 "''u2 edited''"
      "demoMsg ''4'' Assistant ''a2''" "demoMsg ''5'' User ''u3''" "[]"]
  by (simp add: demoTranscript_def demoMsg_def)

text \<open>
  Claim C3 (edit regeneration context), evaluated on the transcript of five messages:
  editing \<open>u2\<close> sends the new content with the history \<open>[u1, a1, a2, u3]\<close>, every
  message of the transcript but the edited one, the two discarded by the truncation
  included; the claim asks for \<open>[u1, a1]\<close>.
\<close>

theorem edit_regeneration_history:
  "snd (snd (handleSaveEditedMessage_start 7000 7001 7002 ''3'' ''u2 edited''
              \<lparr>messages = demoTranscript, input = [], isLoading = False\<rparr>)) =
     StreamAIResponse ''u2 edited''
       [demoMsg ''1'' User ''u1'', demoMsg ''2'' Assistant ''a1'',
        demoMsg ''4'' Assistant ''a2'', demoMsg ''5'' User ''u3'']"
  by (simp add: handleSaveEditedMessage_start_def demoTranscript_def demoMsg_def Let_def)

section \<open>Properties of the validity gate\<close>

text \<open>
  Claim C6 (fail-closed at the final checkpoint). In both image analyzers, when
  \<open>handleAnalyze\<close> reaches its final validation call and that call returns a result with
  \<open>isValid\<close> false, the only call issued is the validation call: the analysis call is not
  made, \<open>error\<close> becomes the validation message followed by the list of accepted images,
  and \<open>loading\<close> is false again.
\<close>

theorem validation_fail_closed:
  assumes "image_f s = Some img" "validationWarning s = []" "convertImageToBase64 img = Inr b64"
    "validate b64 = Inr v" "\<not> isValid v"
  shows "handleAnalyze_Medicine convertImageToBase64 validate analyzeMedicine s =
           (s\<lparr>loading := False, error := message v @ medicineHint\<rparr>,
            [Call (ValidateMedicineImage b64)])
         \<and> handleAnalyze_MedicalImage convertImageToBase64 validate analyzeMedicalImage s =
           (s\<lparr>loading := False, error := message v @ medicalImageHint\<rparr>,
            [Call (ValidateMedicalImage b64)])"
  using assms by (simp add: handleAnalyze_Medicine_def handleAnalyze_MedicalImage_def Let_def)

theorem validation_fail_closed_witness:
  "handleAnalyze_Medicine (\<lambda>f. Inr ''UE5H'') (\<lambda>b. Inr \<lparr>isValid = False, message = ''Not a medicine.''\<rparr>)
       (\<lambda>b i. Inr ''report'') demoAnalyzer =
     (demoAnalyzer\<lparr>loading := False, error := ''Not a medicine.'' @ medicineHint\<rparr>,
      [Call (ValidateMedicineImage ''UE5H'')])
   \<and> handleAnalyze_MedicalImage (\<lambda>f. Inr ''UE5H'') (\<lambda>b. Inr \<lparr>isValid = False, message = ''Not a medicine.''\<rparr>)
       (\<lambda>b i. Inr ''report'') demoAnalyzer =
     (demoAnalyzer\<lparr>loading := False, error := ''Not a medicine.'' @ medicalImageHint\<rparr>,
      [Call (ValidateMedicalImage ''UE5H'')])"
  using validation_fail_closed [of demoAnalyzer demoFile "\<lambda>f. Inr ''UE5H''" "''UE5H''"
      "\<lambda>b. Inr \<lparr>isValid = False, message = ''Not a medicine.''\<rparr>"
      "\<lparr>isValid = False, message = ''Not a medicine.''\<rparr>" "\<lambda>b i. Inr ''report''" "\<lambda>b i. Inr ''report''"]
  by (simp add: demoAnalyzer_def)

text \<open>
  Claim C7 (fail-open at the pre-check), as the components have it. In the two image
  analyzers a failing validation call at upload time is only logged: the image is kept, no
  warning and no error are set, and \<open>handleAnalyze\<close> then goes on to the analysis call
  when the final validation accepts the image. The term explainer has one validation
  call, directly before the explanation call: when it fails, the thrown message becomes
  \<open>error\<close> and the explanation call is not issued.
\<close>

theorem precheck_fail_open:
  assumes "startsWith (mimeType f) ''image/''" "convertImageToBase64 f = Inr b64"
    "validatePre b64 = Inl err" "validateFinal b64 = Inr v" "isValid v"
    "trim (term_t t) \<noteq> []" "validateMedicalTerm (term_t t) = Inl err"
  shows
    "handleImageUpload_Medicine convertImageToBase64 validatePre (Some f) s =
       (s\<lparr>image_f := Some f, error := [], validationWarning := [], analysis := None,
          validating := False\<rparr>,
        [Call (ValidateMedicineImage b64), ConsoleError ''Validation error:''])
     \<and> Call (AnalyzeMedicine b64 (trim (additionalInfo s))) \<in>
         set (snd (handleAnalyze_Medicine convertImageToBase64 validateFinal analyzeMedicine
                (fst (handleImageUpload_Medicine convertImageToBase64 validatePre (Some f) s))))
     \<and> handleImageUpload_MedicalImage convertImageToBase64 validatePre (Some f) s =
       (s\<lparr>image_f := Some f, error := [], validationWarning := [], validating := False\<rparr>,
        [Call (ValidateMedicalImage b64), ConsoleError ''Validation error:''])
     \<and> Call (AnalyzeMedicalImage b64 (trim (additionalInfo s))) \<in>
         set (snd (handleAnalyze_MedicalImage convertImageToBase64 validateFinal analyzeMedicalImage
                (fst (handleImageUpload_MedicalImage convertImageToBase64 validatePre (Some f) s))))
     \<and> handleExplain validateMedicalTerm explainMedicalTerm t =
       (t\<lparr>loading_t := False,
          error_t := (case err of JsError m \<Rightarrow> m
                      | NonError \<Rightarrow> ''Error explaining term. Please try again.''),
          explanation_t := []\<rparr>,
        [Call (ValidateMedicalTerm (term_t t))])"
proof -
  have m1: "handleImageUpload_Medicine convertImageToBase64 validatePre (Some f) s =
      (s\<lparr>image_f := Some f, error := [], validationWarning := [], analysis := None,
         validating := False\<rparr>,
       [Call (ValidateMedicineImage b64), ConsoleError ''Validation error:''])"
    using assms(1-3)
    by (simp add: handleImageUpload_Medicine_def validateUploadedImage_Medicine_def Let_def)
  have i1: "handleImageUpload_MedicalImage convertImageToBase64 validatePre (Some f) s =
      (s\<lparr>image_f := Some f, error := [], validationWarning := [], validating := False\<rparr>,
       [Call (ValidateMedicalImage b64), ConsoleError ''Validation error:''])"
    using assms(1-3)
    by (simp add: handleImageUpload_MedicalImage_def validateUploadedImage_MedicalImage_def Let_def)
  have m2: "Call (AnalyzeMedicine b64 (trim (additionalInfo s))) \<in>
         set (snd (handleAnalyze_Medicine convertImageToBase64 validateFinal analyzeMedicine
                (fst (handleImageUpload_Medicine convertImageToBase64 validatePre (Some f) s))))"
    using assms(2,4,5) by (simp add: m1 handleAnalyze_Medicine_def Let_def split: sum.splits)
  have i2: "Call (AnalyzeMedicalImage b64 (trim (additionalInfo s))) \<in>
         set (snd (handleAnalyze_MedicalImage convertImageToBase64 validateFinal analyzeMedicalImage
                (fst (handleImageUpload_MedicalImage convertImageToBase64 validatePre (Some f) s))))"
    using assms(2,4,5) by (simp add: i1 handleAnalyze_MedicalImage_def Let_def split: sum.splits)
  have e: "handleExplain validateMedicalTerm explainMedicalTerm t =
       (t\<lparr>loading_t := False,
          error_t := (case err of JsError m \<Rightarrow> m
                      | NonError \<Rightarrow> ''Error explaining term. Please try again.''),
          explanation_t := []\<rparr>,
        [Call (ValidateMedicalTerm (term_t t))])"
    using assms(6,7) by (simp add: handleExplain_def Let_def)
  show ?thesis using m1 i1 m2 i2 e by simp
qed

theorem precheck_fail_open_witness:
  "startsWith (mimeType demoFile) ''image/''
   \<and> handleImageUpload_Medicine (\<lambda>f. Inr ''UE5H'') (\<lambda>b. Inl (JsError ''Network down'')) (Some demoFile)
       demoEmptyAnalyzer =
       (demoEmptyAnalyzer\<lparr>image_f := Some demoFile\<rparr>,
        [Call (ValidateMedicineImage ''UE5H''), ConsoleError ''Validation error:''])
   \<and> Call (AnalyzeMedicine ''UE5H'' ''adult'') \<in>
       set (snd (handleAnalyze_Medicine (\<lambda>f. Inr ''UE5H'')
              (\<lambda>b. Inr \<lparr>isValid = True, message = []\<rparr>) (\<lambda>b i. Inr ''report'')
              (fst (handleImageUpload_Medicine (\<lambda>f. Inr ''UE5H'') (\<lambda>b. Inl (JsError ''Network down''))
                     (Some demoFile) demoEmptyAnalyzer))))
   \<and> handleImageUpload_MedicalImage (\<lambda>f. Inr ''UE5H'') (\<lambda>b. Inl (JsError ''Network down'')) (Some demoFile)
       demoEmptyAnalyzer =
       (demoEmptyAnalyzer\<lparr>image_f := Some demoFile\<rparr>,
        [Call (ValidateMedicalImage ''UE5H''), ConsoleError ''Validation error:''])
   \<and> Call (AnalyzeMedicalImage ''UE5H'' ''adult'') \<in>
       set (snd (handleAnalyze_MedicalImage (\<lambda>f. Inr ''UE5H'')
              (\<lambda>b. Inr \<lparr>isValid = True, message = []\<rparr>) (\<lambda>b i. Inr ''report'')
              (fst (handleImageUpload_MedicalImage (\<lambda>f. Inr ''UE5H'') (\<lambda>b. Inl (JsError ''Network down''))
                     (Some demoFile) demoEmptyAnalyzer))))
   \<and> handleExplain (\<lambda>t. Inl (JsError ''Network down'')) (\<lambda>t. Inr ''Magnetic resonance imaging'') demoTerm =
       (demoTerm\<lparr>error_t := ''Network down''\<rparr>, [Call (ValidateMedicalTerm ''MRI'')])"
proof -
  have a: "startsWith (mimeType demoFile) ''image/''" by (simp add: startsWith_def demoFile_def)
  have b: "trim (term_t demoTerm) \<noteq> []" by (simp add: demoTerm_def trim_MRI)
  show ?thesis
    using a precheck_fail_open [OF a, of "\<lambda>f. Inr ''UE5H''" "''UE5H''"
        "\<lambda>b. Inl (JsError ''Network down'')" "JsError ''Network down''"
        "\<lambda>b. Inr \<lparr>isValid = True, message = []\<rparr>" "\<lparr>isValid = True, message = []\<rparr>"
        demoTerm "\<lambda>t. Inl (JsError ''Network down'')" demoEmptyAnalyzer
        "\<lambda>b i. Inr ''report''" "\<lambda>b i. Inr ''report''" "\<lambda>t. Inr ''Magnetic resonance imaging''", OF _ _ _ _ b]
    by (auto simp add: demoEmptyAnalyzer_def demoTerm_def trim_MRI trim_adult)
qed

text \<open>
  The term explainer with a failing validation call and an explanation call that would
  succeed: the failure is shown as the error and nothing is explained.
\<close>

theorem precheck_counterexample:
  "handleExplain (\<lambda>t. Inl (JsError ''Network down'')) (\<lambda>t. Inr ''Magnetic resonance imaging'') demoTerm =
     (demoTerm\<lparr>error_t := ''Network down''\<rparr>, [Call (ValidateMedicalTerm ''MRI'')])"
  by (simp add: handleExplain_def demoTerm_def trim_MRI Let_def)

section \<open>Properties of the medication collection\<close>

text \<open>
  Claim C9 (duplicate rejection). Adding a name that is not yet in the collection and
  that the validation accepts appends it; adding the same text again changes only
  \<open>currentDrug\<close> (the text typed) and \<open>error\<close>, which becomes the duplicate message, and
  issues no call at all, whatever the validation would answer; the collection then holds
  the name exactly once. The instance below is the literal ``Aspirin''.
\<close>

theorem duplicate_rejection:
  assumes "trim txt = d" "d \<noteq> []" "d \<notin> set (drugs s)" "validate1 d = Inr True"
  shows "drugs (fst (addDrug validate1 (s\<lparr>currentDrug := txt\<rparr>))) = drugs s @ [d]
     \<and> addDrug validate2 ((fst (addDrug validate1 (s\<lparr>currentDrug := txt\<rparr>)))\<lparr>currentDrug := txt\<rparr>) =
         ((fst (addDrug validate1 (s\<lparr>currentDrug := txt\<rparr>)))
            \<lparr>currentDrug := txt, error_d := ''This medication has already been added.''\<rparr>, [])
     \<and> count_list (drugs (fst (addDrug validate2
          ((fst (addDrug validate1 (s\<lparr>currentDrug := txt\<rparr>)))\<lparr>currentDrug := txt\<rparr>)))) d = 1"
  using assms by (simp add: addDrug_def Let_def count_list_0_iff)

theorem duplicate_rejection_witness:
  "trim ''Aspirin'' = ''Aspirin''
   \<and> drugs (fst (addDrug (\<lambda>n. Inr True) (demoDrugs\<lparr>currentDrug := ''Aspirin''\<rparr>))) = [''Aspirin'']
   \<and> addDrug (\<lambda>n. Inr True)
        ((fst (addDrug (\<lambda>n. Inr True) (demoDrugs\<lparr>currentDrug := ''Aspirin''\<rparr>)))\<lparr>currentDrug := ''Aspirin''\<rparr>) =
       (\<lparr>drugs = [''Aspirin''], currentDrug = ''Aspirin'',
          error_d = ''This medication has already been added.'', validating_d = False\<rparr>, [])
   \<and> trim typedAspirin = ''Aspirin''
   \<and> addDrug (\<lambda>n. Inr True)
        ((fst (addDrug (\<lambda>n. Inr True) (demoDrugs\<lparr>currentDrug := typedAspirin\<rparr>)))
           \<lparr>currentDrug := typedAspirin\<rparr>) =
       (\<lparr>drugs = [''Aspirin''], currentDrug = typedAspirin,
          error_d = ''This medication has already been added.'', validating_d = False\<rparr>, [])"
  using trim_Aspirin trim_Aspirin_spaced
    duplicate_rejection [OF trim_Aspirin, of demoDrugs "\<lambda>n. Inr True" "\<lambda>n. Inr True"]
    duplicate_rejection [OF trim_Aspirin_spaced, of demoDrugs "\<lambda>n. Inr True" "\<lambda>n. Inr True"]
  by (simp add: demoDrugs_def addDrug_def Let_def)

text \<open>
  Claim C10 (the duplicate check is exact string equality). For a non-empty trimmed
  candidate, \<open>addDrug\<close> issues no call exactly when the candidate is an element of the
  collection; a candidate that is not, such as a name that differs from an entry only in
  letter case, goes to the validation call and, when validated, is appended as a further
  entry. The instance below adds ``aspirin'', typed with white space around it, after
  ``Aspirin''.
\<close>

theorem duplicate_check_exact:
  assumes "d = trim (currentDrug s)" "d \<noteq> []"
  shows "(snd (addDrug validate s) = [] \<longleftrightarrow> d \<in> set (drugs s))
     \<and> (d \<notin> set (drugs s) \<longrightarrow> snd (addDrug validate s) = [Call (ValidateMedicationName d)])
     \<and> (d \<notin> set (drugs s) \<and> validate d = Inr True \<longrightarrow>
          drugs (fst (addDrug validate s)) = drugs s @ [d])"
  using assms by (auto simp add: addDrug_def Let_def split: sum.splits)

theorem duplicate_check_exact_witness:
  "''aspirin'' = trim typedLowerAspirin \<and> ''aspirin'' \<notin> set [''Aspirin'']
   \<and> snd (addDrug (\<lambda>n. Inr True)
        \<lparr>drugs = [''Aspirin''], currentDrug = typedLowerAspirin, error_d = [],
          validating_d = False\<rparr>) =
       [Call (ValidateMedicationName ''aspirin'')]
   \<and> drugs (fst (addDrug (\<lambda>n. Inr True)
        \<lparr>drugs = [''Aspirin''], currentDrug = typedLowerAspirin, error_d = [],
          validating_d = False\<rparr>)) =
       [''Aspirin'', ''aspirin'']"
proof -
  have a: "''aspirin'' = trim (currentDrug
      \<lparr>drugs = [''Aspirin''], currentDrug = typedLowerAspirin, error_d = [],
        validating_d = False\<rparr>)"
    by (simp add: trim_aspirin_spaced)
  have b: "''aspirin'' \<noteq> []" by simp
  show ?thesis
    using duplicate_check_exact [OF a b, of "\<lambda>n. Inr True"] by (simp add: trim_aspirin_spaced)
qed

end
